theory Spec2Isabelle
  imports Main
begin

section \<open>Data model (types of the try-on session)\<close>

text \<open>
  The session lives in the React component \<open>App\<close> of \<open>src/App.tsx\<close>. Every
  \<open>useState\<close> cell of that component is a field of the record \<open>AppState\<close> below, and
  every handler is a function from states to states.

  JavaScript objects are shared by reference. The arrays of the session are never
  written in place (\<open>slice\<close>, \<open>map\<close> and the spread \<open>[...xs]\<close> build new arrays), so
  an array is a HOL list. A layer object, however, is written in place by
  \<open>handlePoseSelect\<close> (\<open>updatedLayer.poseImages[poseInstruction] = newImageUrl\<close>).
  Layer objects therefore live in an explicit store \<open>heap\<close>: a list of layers whose
  indices are the addresses, and the history and the saved outfits hold addresses.
  Allocation appends to the store. A \<open>poseImages\<close> object belongs to exactly one
  layer object (no handler lets two layers share one), so it is stored inside its layer.
\<close>

datatype ItemType = garment | accessory

record WardrobeItem =
  item_id :: string
  item_name :: string
  item_url :: string
  item_type :: ItemType

text \<open>
  \<open>poseImages\<close> is a plain object with string keys, none of them an array index: its
  keys are enumerated in insertion order, so it is an association list in that order.
\<close>

type_synonym PoseImages = "(string \<times> string) list"

record OutfitLayer =
  item :: "WardrobeItem option"
  poseImages :: PoseImages

type_synonym addr = nat

record SavedOutfit =
  outfit_id :: string
  outfit_name :: string
  previewImageUrl :: string
  outfitModelImageUrl :: string
  layers :: "addr list"

text \<open>What \<open>JSON.stringify\<close> writes for a saved outfit: the layers by value.\<close>

record StoredOutfit =
  stored_id :: string
  stored_name :: string
  stored_previewImageUrl :: string
  stored_modelImageUrl :: string
  stored_layers :: "OutfitLayer list"

text \<open>
  \<open>getFriendlyErrorMessage\<close> is imported from \<open>lib/utils\<close>; its text is never
  inspected by the session, so an error message is kept as the pair of arguments the
  function is applied to (the caught error and the context string).
\<close>

datatype ErrorMessage = FriendlyError string string

record AppState =
  heap :: "OutfitLayer list"
  modelImageUrl :: "string option"
  outfitHistory :: "addr list"
  currentOutfitIndex :: int
  isLoading :: bool
  loadingMessage :: string
  error :: "ErrorMessage option"
  currentPoseIndex :: int
  isSheetCollapsed :: bool
  wardrobe :: "WardrobeItem list"
  accessories :: "WardrobeItem list"
  savedOutfits :: "SavedOutfit list"
  isColorPickerOpen :: bool
  isLookbookOpen :: bool
  selectedLayerIndexForRecolor :: "int option"
  localStorage :: "StoredOutfit list option"

text \<open>The four operations of the image generation service, as the handlers call them.\<close>

datatype GatewayRequest =
    VirtualTryOn string string
  | AccessoryTryOn string string
  | PoseVariation string "string option"
  | ColorVariation string string string

datatype GatewayResult = Failed string | Image string

text \<open>
  What an asynchronous handler keeps in its closure across the \<open>await\<close>: the values of
  the render in which it was called.
\<close>

datatype Pending =
    PendingAdd WardrobeItem int int
  | PendingPose int int int
  | PendingRecolor int int

text \<open>
  How the synchronous part of a handler ends: \<open>Ignored\<close> is an early \<open>return\<close> before
  any state is set, \<open>Done\<close> a return after the state was set, \<open>Threw\<close> a
  \<open>TypeError\<close> (reading a property of \<open>undefined\<close>), and \<open>Await\<close> the call of the
  Gateway, with the request sent and the closure that waits for the answer.
\<close>

datatype Outcome = Ignored | Done | Threw | Await GatewayRequest Pending

section \<open>JavaScript primitives\<close>

text \<open>\<open>xs[i]\<close>: \<open>undefined\<close> outside the array.\<close>

definition js_nth :: "'a list \<Rightarrow> int \<Rightarrow> 'a option" where
  "js_nth xs i = (if 0 \<le> i \<and> i < int (length xs) then Some (xs ! nat i) else None)"

text \<open>\<open>xs.slice(0, e)\<close>: a negative end counts from the end of the array.\<close>

definition js_slice0 :: "'a list \<Rightarrow> int \<Rightarrow> 'a list" where
  "js_slice0 xs e =
     (if e < 0 then take (nat (max (int (length xs) + e) 0)) xs else take (nat e) xs)"

text \<open>Truthiness of a value of type \<open>string | null | undefined\<close>.\<close>

fun truthy :: "string option \<Rightarrow> bool" where
  "truthy None = False"
| "truthy (Some v) = (v \<noteq> [])"

text \<open>A value used as a property key: \<open>undefined\<close> becomes the key \<open>"undefined"\<close>.\<close>

fun property_key :: "string option \<Rightarrow> string" where
  "property_key None = ''undefined''"
| "property_key (Some k) = k"

definition obj_get :: "PoseImages \<Rightarrow> string \<Rightarrow> string option" where
  "obj_get m k = map_of m k"

text \<open>\<open>m[k] = v\<close>: an existing key keeps its place, a new key goes last.\<close>

fun obj_set :: "PoseImages \<Rightarrow> string \<Rightarrow> string \<Rightarrow> PoseImages" where
  "obj_set [] k v = [(k, v)]"
| "obj_set ((k', v') # m) k v = (if k' = k then (k, v) # m else (k', v') # obj_set m k v)"

text \<open>\<open>Object.values(m)[0]\<close>.\<close>

fun first_value :: "PoseImages \<Rightarrow> string option" where
  "first_value [] = None"
| "first_value ((k, v) # m) = Some v"

section \<open>Constants and derived state\<close>

definition POSE_INSTRUCTIONS :: "string list" where
  "POSE_INSTRUCTIONS =
     [''Full frontal view, hands on hips'',
      ''Slightly turned, 3/4 view'',
      ''Side profile view'',
      ''Jumping in the air, mid-action shot'',
      ''Walking towards camera'',
      ''Leaning against a wall'']"

definition defaultWardrobe :: "WardrobeItem list" where
  "defaultWardrobe =
     [\<lparr>item_id = ''gemini-sweat'', item_name = ''Gemini Sweat'',
       item_url = ''https://cdn.jsdelivr.net/gh/ammaarreshi/app-images@main/gemini-sweat-2.png'',
       item_type = garment\<rparr>,
      \<lparr>item_id = ''gemini-tee'', item_name = ''Gemini Tee'',
       item_url = ''https://cdn.jsdelivr.net/gh/ammaarreshi/app-images@main/Gemini-tee.png'',
       item_type = garment\<rparr>]"

definition defaultAccessories :: "WardrobeItem list" where
  "defaultAccessories =
     [\<lparr>item_id = ''gold-necklace'', item_name = ''Gold Necklace'',
       item_url = ''https://cdn.jsdelivr.net/gh/ammaarreshi/app-images@main/accessories/gold-necklace.png'',
       item_type = accessory\<rparr>,
      \<lparr>item_id = ''sun-hat'', item_name = ''Sun Hat'',
       item_url = ''https://cdn.jsdelivr.net/gh/ammaarreshi/app-images@main/accessories/sun-hat.png'',
       item_type = accessory\<rparr>,
      \<lparr>item_id = ''aviator-sunglasses'', item_name = ''Aviators'',
       item_url = ''https://cdn.jsdelivr.net/gh/ammaarreshi/app-images@main/accessories/aviator-sunglasses.png'',
       item_type = accessory\<rparr>]"

text \<open>The key \<open>POSE_INSTRUCTIONS[i]\<close> names in a \<open>poseImages\<close> object.\<close>

definition pose_key :: "int \<Rightarrow> string" where
  "pose_key i = property_key (js_nth POSE_INSTRUCTIONS i)"

text \<open>The layer object an address of the history refers to.\<close>

definition layer_at :: "AppState \<Rightarrow> addr \<Rightarrow> OutfitLayer" where
  "layer_at s a = heap s ! a"

definition activeOutfitLayers :: "AppState \<Rightarrow> addr list" where
  "activeOutfitLayers s = js_slice0 (outfitHistory s) (currentOutfitIndex s + 1)"

text \<open>
  \<open>layer.item?.id\<close> is \<open>undefined\<close> for the base layer; \<open>filter(Boolean)\<close> drops
  \<open>undefined\<close> and the empty string.
\<close>

definition optional_id :: "OutfitLayer \<Rightarrow> string option" where
  "optional_id l = (case item l of None \<Rightarrow> None | Some it \<Rightarrow> Some (item_id it))"

definition activeItemIds :: "AppState \<Rightarrow> string list" where
  "activeItemIds s =
     map property_key (filter truthy (map (\<lambda>a. optional_id (layer_at s a)) (activeOutfitLayers s)))"

definition displayImageUrl :: "AppState \<Rightarrow> string option" where
  "displayImageUrl s =
     (if length (outfitHistory s) = 0 then modelImageUrl s
      else case js_nth (outfitHistory s) (currentOutfitIndex s) of
             None \<Rightarrow> modelImageUrl s
           | Some a \<Rightarrow>
               (case obj_get (poseImages (layer_at s a)) (pose_key (currentPoseIndex s)) of
                  Some v \<Rightarrow> Some v
                | None \<Rightarrow> first_value (poseImages (layer_at s a))))"

section \<open>Handlers of \<open>App\<close>\<close>

text \<open>
  A handler that calls the Gateway is split at its \<open>await\<close>. The first part
  (\<open>handleX_start\<close>) runs in the render in which the user acted: it returns the state
  after its synchronous \<open>setState\<close> calls and an \<open>Outcome\<close>. The second part
  (\<open>handleX_resolve\<close>) runs when the Gateway answers: it receives the state of that
  moment, the closure and the answer. Functional updates (\<open>prev => ...\<close>) read the
  state of that moment; everything else reads the closure.
\<close>

definition handleModelFinalized :: "AppState \<Rightarrow> string \<Rightarrow> AppState" where
  "handleModelFinalized s u =
     s\<lparr>heap := heap s @ [\<lparr>item = None, poseImages = [(pose_key 0, u)]\<rparr>],
       modelImageUrl := Some u,
       outfitHistory := [length (heap s)],
       currentOutfitIndex := 0\<rparr>"

definition handleStartOver :: "AppState \<Rightarrow> AppState" where
  "handleStartOver s =
     s\<lparr>modelImageUrl := None,
       outfitHistory := [],
       currentOutfitIndex := 0,
       isLoading := False,
       loadingMessage := [],
       error := None,
       currentPoseIndex := 0,
       isSheetCollapsed := False,
       wardrobe := defaultWardrobe,
       accessories := defaultAccessories\<rparr>"

text \<open>\<open>nextLayer && nextLayer.item?.id === itemInfo.id\<close>\<close>

definition same_item_next :: "AppState \<Rightarrow> WardrobeItem \<Rightarrow> bool" where
  "same_item_next s itemInfo =
     (case js_nth (outfitHistory s) (currentOutfitIndex s + 1) of
        None \<Rightarrow> False
      | Some a \<Rightarrow> optional_id (layer_at s a) = Some (item_id itemInfo))"

definition type_name :: "ItemType \<Rightarrow> string" where
  "type_name t = (case t of garment \<Rightarrow> ''garment'' | accessory \<Rightarrow> ''accessory'')"

definition handleItemSelect_start ::
  "AppState \<Rightarrow> string \<Rightarrow> WardrobeItem \<Rightarrow> AppState \<times> Outcome" where
  "handleItemSelect_start s itemFile itemInfo =
     (case displayImageUrl s of
        None \<Rightarrow> (s, Ignored)
      | Some d \<Rightarrow>
          if d = [] \<or> isLoading s then (s, Ignored)
          else if same_item_next s itemInfo then
            (s\<lparr>currentOutfitIndex := currentOutfitIndex s + 1, currentPoseIndex := 0\<rparr>, Done)
          else
            (s\<lparr>error := None, isLoading := True,
               loadingMessage := ''Adding '' @ item_name itemInfo @ ''...''\<rparr>,
             Await (if item_type itemInfo = garment then VirtualTryOn d itemFile
                    else AccessoryTryOn d itemFile)
                   (PendingAdd itemInfo (currentPoseIndex s) (currentOutfitIndex s))))"

text \<open>\<open>prev.find(item => item.id === itemInfo.id) ? prev : [...prev, itemInfo]\<close>\<close>

definition add_if_absent :: "WardrobeItem list \<Rightarrow> WardrobeItem \<Rightarrow> WardrobeItem list" where
  "add_if_absent prev itemInfo =
     (if list_ex (\<lambda>it. item_id it = item_id itemInfo) prev then prev else prev @ [itemInfo])"

definition handleItemSelect_resolve ::
  "AppState \<Rightarrow> WardrobeItem \<Rightarrow> int \<Rightarrow> int \<Rightarrow> GatewayResult \<Rightarrow> AppState" where
  "handleItemSelect_resolve s itemInfo poseIndex outfitIndex r =
     (case r of
        Image newImageUrl \<Rightarrow>
          s\<lparr>heap := heap s @ [\<lparr>item = Some itemInfo,
                                 poseImages = [(pose_key poseIndex, newImageUrl)]\<rparr>],
            outfitHistory := js_slice0 (outfitHistory s) (outfitIndex + 1) @ [length (heap s)],
            currentOutfitIndex := currentOutfitIndex s + 1,
            wardrobe := (if item_type itemInfo = garment
                         then add_if_absent (wardrobe s) itemInfo else wardrobe s),
            accessories := (if item_type itemInfo = garment
                            then accessories s else add_if_absent (accessories s) itemInfo),
            isLoading := False,
            loadingMessage := []\<rparr>
      | Failed err \<Rightarrow>
          s\<lparr>error := Some (FriendlyError err (''Failed to apply '' @ type_name (item_type itemInfo))),
            isLoading := False,
            loadingMessage := []\<rparr>)"

definition handleRemoveLastGarment :: "AppState \<Rightarrow> AppState" where
  "handleRemoveLastGarment s =
     (if currentOutfitIndex s > 0
      then s\<lparr>currentOutfitIndex := currentOutfitIndex s - 1, currentPoseIndex := 0\<rparr>
      else s)"

definition handlePoseSelect_start :: "AppState \<Rightarrow> int \<Rightarrow> AppState \<times> Outcome" where
  "handlePoseSelect_start s newIndex =
     (if isLoading s \<or> length (outfitHistory s) = 0 \<or> newIndex = currentPoseIndex s
      then (s, Ignored)
      else case js_nth (outfitHistory s) (currentOutfitIndex s) of
             None \<Rightarrow> (s, Threw)
           | Some a \<Rightarrow>
               if truthy (obj_get (poseImages (layer_at s a)) (pose_key newIndex))
               then (s\<lparr>currentPoseIndex := newIndex\<rparr>, Done)
               else
                 (case first_value (poseImages (layer_at s a)) of
                    None \<Rightarrow> (s, Ignored)
                  | Some b \<Rightarrow>
                      if b = [] then (s, Ignored)
                      else
                        (s\<lparr>error := None, isLoading := True,
                           loadingMessage := ''Changing pose...'',
                           currentPoseIndex := newIndex\<rparr>,
                         Await (PoseVariation b (js_nth POSE_INSTRUCTIONS newIndex))
                               (PendingPose newIndex (currentPoseIndex s)
                                  (currentOutfitIndex s)))))"

text \<open>
  On success the updater copies the array and writes into the layer object it finds at
  the closure's index: the object itself changes, for every holder of its address. The
  result is \<open>None\<close> when that index has no layer (the updater throws while React
  renders).
\<close>

definition handlePoseSelect_resolve ::
  "AppState \<Rightarrow> int \<Rightarrow> int \<Rightarrow> int \<Rightarrow> GatewayResult \<Rightarrow> AppState option" where
  "handlePoseSelect_resolve s newIndex prevPoseIndex outfitIndex r =
     (case r of
        Image newImageUrl \<Rightarrow>
          (case js_nth (outfitHistory s) outfitIndex of
             None \<Rightarrow> None
           | Some a \<Rightarrow>
               Some (s\<lparr>heap := (heap s)[a := (layer_at s a)\<lparr>poseImages :=
                                    obj_set (poseImages (layer_at s a)) (pose_key newIndex)
                                      newImageUrl\<rparr>],
                       isLoading := False,
                       loadingMessage := []\<rparr>))
      | Failed err \<Rightarrow>
          Some (s\<lparr>error := Some (FriendlyError err ''Failed to change pose''),
                  currentPoseIndex := prevPoseIndex,
                  isLoading := False,
                  loadingMessage := []\<rparr>))"

text \<open>\<open>JSON.stringify\<close> of the saved outfits: every layer by value.\<close>

definition stringify :: "OutfitLayer list \<Rightarrow> SavedOutfit list \<Rightarrow> StoredOutfit list" where
  "stringify h os =
     map (\<lambda>so. \<lparr>stored_id = outfit_id so, stored_name = outfit_name so,
                 stored_previewImageUrl = previewImageUrl so,
                 stored_modelImageUrl = outfitModelImageUrl so,
                 stored_layers = map (\<lambda>a. h ! a) (layers so)\<rparr>) os"

text \<open>
  \<open>name\<close> is the answer of \<open>window.prompt\<close> (\<open>None\<close> when cancelled) and \<open>now\<close> is
  \<open>Date.now().toString()\<close>.
\<close>

definition handleSaveOutfit :: "AppState \<Rightarrow> string option \<Rightarrow> string \<Rightarrow> AppState" where
  "handleSaveOutfit s name now =
     (if length (outfitHistory s) \<le> 1 \<or> \<not> truthy (displayImageUrl s)
         \<or> \<not> truthy (modelImageUrl s)
      then s
      else if truthy name then
        s\<lparr>savedOutfits := savedOutfits s @
             [\<lparr>outfit_id = now, outfit_name = the name,
               previewImageUrl = the (displayImageUrl s),
               outfitModelImageUrl = the (modelImageUrl s),
               layers = outfitHistory s\<rparr>],
          localStorage := Some (stringify (heap s) (savedOutfits s @
             [\<lparr>outfit_id = now, outfit_name = the name,
               previewImageUrl = the (displayImageUrl s),
               outfitModelImageUrl = the (modelImageUrl s),
               layers = outfitHistory s\<rparr>]))\<rparr>
      else s)"

text \<open>\<open>confirmed\<close> is the answer of \<open>window.confirm\<close>.\<close>

definition handleLoadOutfit :: "AppState \<Rightarrow> SavedOutfit \<Rightarrow> bool \<Rightarrow> AppState" where
  "handleLoadOutfit s outfit confirmed =
     (if confirmed then
        s\<lparr>modelImageUrl := Some (outfitModelImageUrl outfit),
          outfitHistory := layers outfit,
          currentOutfitIndex := int (length (layers outfit)) - 1,
          currentPoseIndex := 0,
          error := None,
          isSheetCollapsed := False\<rparr>
      else s)"

definition handleDeleteOutfit :: "AppState \<Rightarrow> string \<Rightarrow> bool \<Rightarrow> AppState" where
  "handleDeleteOutfit s outfitId confirmed =
     (if confirmed then
        s\<lparr>savedOutfits := filter (\<lambda>so. outfit_id so \<noteq> outfitId) (savedOutfits s),
          localStorage := Some (stringify (heap s)
             (filter (\<lambda>so. outfit_id so \<noteq> outfitId) (savedOutfits s)))\<rparr>
      else s)"

definition handleOpenColorPicker :: "AppState \<Rightarrow> int \<Rightarrow> AppState" where
  "handleOpenColorPicker s layerIndex =
     s\<lparr>selectedLayerIndexForRecolor := Some layerIndex, isColorPickerOpen := True\<rparr>"

definition handleRecolorGarment_start :: "AppState \<Rightarrow> string \<Rightarrow> AppState \<times> Outcome" where
  "handleRecolorGarment_start s colorName =
     (case selectedLayerIndexForRecolor s of
        None \<Rightarrow> (s, Ignored)
      | Some i \<Rightarrow>
          if \<not> truthy (displayImageUrl s) then (s, Ignored)
          else case js_nth (outfitHistory s) i of
                 None \<Rightarrow> (s, Ignored)
               | Some a \<Rightarrow>
                   (case item (layer_at s a) of
                      None \<Rightarrow> (s, Ignored)
                    | Some it \<Rightarrow>
                        (s\<lparr>error := None, isLoading := True,
                           loadingMessage := ''Recoloring to '' @ colorName @ ''...''\<rparr>,
                         Await (ColorVariation (the (displayImageUrl s)) (item_name it) colorName)
                               (PendingRecolor i (currentPoseIndex s)))))"

text \<open>
  On success \<open>prevHistory.map\<close> puts a new layer object (\<open>{...layer, poseImages: ...}\<close>)
  at the closure's index and keeps every other address; an index outside the array
  matches no element.
\<close>

definition handleRecolorGarment_resolve ::
  "AppState \<Rightarrow> int \<Rightarrow> int \<Rightarrow> GatewayResult \<Rightarrow> AppState" where
  "handleRecolorGarment_resolve s layerIndex poseIndex r =
     (case r of
        Image newImageUrl \<Rightarrow>
          (case js_nth (outfitHistory s) layerIndex of
             None \<Rightarrow>
               s\<lparr>isLoading := False, loadingMessage := [], isColorPickerOpen := False,
                 selectedLayerIndexForRecolor := None\<rparr>
           | Some a \<Rightarrow>
               s\<lparr>heap := heap s @ [(layer_at s a)\<lparr>poseImages :=
                                       [(pose_key poseIndex, newImageUrl)]\<rparr>],
                 outfitHistory := (outfitHistory s)[nat layerIndex := length (heap s)],
                 isLoading := False, loadingMessage := [], isColorPickerOpen := False,
                 selectedLayerIndexForRecolor := None\<rparr>)
      | Failed err \<Rightarrow>
          s\<lparr>error := Some (FriendlyError err ''Failed to recolor item''),
            isLoading := False, loadingMessage := [], isColorPickerOpen := False,
            selectedLayerIndexForRecolor := None\<rparr>)"

text \<open>The continuation of whichever handler is waiting.\<close>

fun resolve :: "AppState \<Rightarrow> Pending \<Rightarrow> GatewayResult \<Rightarrow> AppState option" where
  "resolve s (PendingAdd itemInfo poseIndex outfitIndex) r =
     Some (handleItemSelect_resolve s itemInfo poseIndex outfitIndex r)"
| "resolve s (PendingPose newIndex prevPoseIndex outfitIndex) r =
     handlePoseSelect_resolve s newIndex prevPoseIndex outfitIndex r"
| "resolve s (PendingRecolor layerIndex poseIndex) r =
     Some (handleRecolorGarment_resolve s layerIndex poseIndex r)"

section \<open>Handler of \<open>WardrobePanel\<close>\<close>

text \<open>
  The panel calls \<open>handleItemSelect\<close> through its prop \<open>onItemSelect\<close>, and it does
  so after an \<open>await\<close>: the function called is the one of the render in which the
  click was made. Its tests and the values it keeps read the state \<open>c\<close> of that render
  (\<open>displayImageUrl\<close>, \<open>isLoading\<close>, \<open>outfitHistory\<close>, \<open>currentOutfitIndex\<close>,
  \<open>currentPoseIndex\<close>), while its \<open>setState\<close> calls act on the state \<open>t\<close> of the
  moment. Called in the render it belongs to, it is \<open>handleItemSelect_start\<close>.
\<close>

definition handleItemSelect_closure ::
  "AppState \<Rightarrow> AppState \<Rightarrow> string \<Rightarrow> WardrobeItem \<Rightarrow> AppState \<times> Outcome" where
  "handleItemSelect_closure c t itemFile itemInfo =
     (case displayImageUrl c of
        None \<Rightarrow> (t, Ignored)
      | Some d \<Rightarrow>
          if d = [] \<or> isLoading c then (t, Ignored)
          else if same_item_next c itemInfo then
            (t\<lparr>currentOutfitIndex := currentOutfitIndex t + 1, currentPoseIndex := 0\<rparr>, Done)
          else
            (t\<lparr>error := None, isLoading := True,
               loadingMessage := ''Adding '' @ item_name itemInfo @ ''...''\<rparr>,
             Await (if item_type itemInfo = garment then VirtualTryOn d itemFile
                    else AccessoryTryOn d itemFile)
                   (PendingAdd itemInfo (currentPoseIndex c) (currentOutfitIndex c))))"

text \<open>
  \<open>handleItemClick\<close> of the wardrobe panel, split at \<open>await urlToFile\<close>. The panel
  receives \<open>isLoading\<close> and \<open>activeItemIds\<close> as props; \<open>panelError\<close> is its own
  \<open>error\<close> state. \<open>handleItemClick_loaded\<close> is the part after the \<open>await\<close>: \<open>c\<close> is
  the state of the render of the click, \<open>t\<close> the state when the promise settles, and
  \<open>file\<close> the result of \<open>urlToFile\<close> (\<open>None\<close> when the promise is rejected).
\<close>

definition handleItemClick_loaded ::
  "AppState \<Rightarrow> AppState \<Rightarrow> WardrobeItem \<Rightarrow> string option
     \<Rightarrow> (AppState \<times> Outcome) \<times> string option" where
  "handleItemClick_loaded c t it file =
     (case file of
        Some f \<Rightarrow> (handleItemSelect_closure c t f it, None)
      | None \<Rightarrow>
          ((t, Ignored),
           Some ''Failed to load wardrobe item. This is often a CORS issue. Check the developer console for details.''))"

text \<open>
  The click itself, with the file loaded before anything else happens in the session:
  the guard, and then the part after the \<open>await\<close> on the state of the click.
\<close>

definition handleItemClick ::
  "AppState \<Rightarrow> string option \<Rightarrow> WardrobeItem \<Rightarrow> string option
     \<Rightarrow> (AppState \<times> Outcome) \<times> string option" where
  "handleItemClick s panelError it file =
     (if isLoading s \<or> item_id it \<in> set (activeItemIds s) then ((s, Ignored), panelError)
      else handleItemClick_loaded s s it file)"

section \<open>Operations run to completion\<close>

text \<open>
  An operation whose Gateway call is answered before anything else happens: the start,
  then the continuation on the state the start left.
\<close>

fun complete :: "AppState \<times> Outcome \<Rightarrow> GatewayResult \<Rightarrow> AppState option" where
  "complete (s, Await req p) r = resolve s p r"
| "complete (s, other) r = Some s"

definition handleItemSelect ::
  "AppState \<Rightarrow> string \<Rightarrow> WardrobeItem \<Rightarrow> GatewayResult \<Rightarrow> AppState option" where
  "handleItemSelect s itemFile itemInfo r = complete (handleItemSelect_start s itemFile itemInfo) r"

definition handlePoseSelect :: "AppState \<Rightarrow> int \<Rightarrow> GatewayResult \<Rightarrow> AppState option" where
  "handlePoseSelect s newIndex r = complete (handlePoseSelect_start s newIndex) r"

definition handleRecolorGarment ::
  "AppState \<Rightarrow> string \<Rightarrow> GatewayResult \<Rightarrow> AppState option" where
  "handleRecolorGarment s colorName r = complete (handleRecolorGarment_start s colorName) r"

text \<open>
  A successful add-item call: the cached layer is reused, or the Gateway is called and
  answers with an image. A call the guard ignores is not one.
\<close>

definition successful_add :: "AppState \<Rightarrow> string \<times> WardrobeItem \<times> string \<Rightarrow> AppState option" where
  "successful_add s x =
     (case x of (itemFile, itemInfo, img) \<Rightarrow>
        (case handleItemSelect_start s itemFile itemInfo of
           (s1, Done) \<Rightarrow> Some s1
         | (s1, Await req p) \<Rightarrow> resolve s1 p (Image img)
         | (s1, Ignored) \<Rightarrow> None
         | (s1, Threw) \<Rightarrow> None))"

fun add_items :: "(string \<times> WardrobeItem \<times> string) list \<Rightarrow> AppState \<Rightarrow> AppState option" where
  "add_items [] s = Some s"
| "add_items (x # xs) s =
     (case successful_add s x of None \<Rightarrow> None | Some s' \<Rightarrow> add_items xs s')"

section \<open>Invariants\<close>

text \<open>The active position is an index of the history whenever the history is non-empty.\<close>

definition position_inv :: "AppState \<Rightarrow> bool" where
  "position_inv s =
     (outfitHistory s \<noteq> [] \<longrightarrow>
        0 \<le> currentOutfitIndex s \<and> currentOutfitIndex s < int (length (outfitHistory s)))"

text \<open>
  A form that single operations keep: in addition, an empty history that comes with a
  model image (an archived outfit without layers was loaded) has the position
  \<open>length - 1 = -1\<close>.
\<close>

definition session_inv :: "AppState \<Rightarrow> bool" where
  "session_inv s =
     (position_inv s \<and>
      (outfitHistory s = [] \<and> truthy (modelImageUrl s) \<longrightarrow> currentOutfitIndex s = - 1))"

text \<open>Every address of the history refers to an allocated layer object.\<close>

definition history_allocated :: "AppState \<Rightarrow> bool" where
  "history_allocated s = list_all (\<lambda>a. a < length (heap s)) (outfitHistory s)"

section \<open>Example sessions\<close>

text \<open>The state of \<open>App\<close> when it mounts with an empty archive.\<close>

definition initial_state :: AppState where
  "initial_state =
     \<lparr>heap = [], modelImageUrl = None, outfitHistory = [], currentOutfitIndex = 0,
      isLoading = False, loadingMessage = [], error = None, currentPoseIndex = 0,
      isSheetCollapsed = False, wardrobe = defaultWardrobe, accessories = defaultAccessories,
      savedOutfits = [], isColorPickerOpen = False, isLookbookOpen = False,
      selectedLayerIndexForRecolor = None, localStorage = None\<rparr>"

definition tee :: WardrobeItem where
  "tee = \<lparr>item_id = ''gemini-tee'', item_name = ''Gemini Tee'',
          item_url = ''https://cdn.jsdelivr.net/gh/ammaarreshi/app-images@main/Gemini-tee.png'',
          item_type = garment\<rparr>"

definition sweat :: WardrobeItem where
  "sweat = \<lparr>item_id = ''gemini-sweat'', item_name = ''Gemini Sweat'',
            item_url = ''https://cdn.jsdelivr.net/gh/ammaarreshi/app-images@main/gemini-sweat-2.png'',
            item_type = garment\<rparr>"

definition hat :: WardrobeItem where
  "hat = \<lparr>item_id = ''sun-hat'', item_name = ''Sun Hat'',
          item_url = ''https://cdn.jsdelivr.net/gh/ammaarreshi/app-images@main/accessories/sun-hat.png'',
          item_type = accessory\<rparr>"

text \<open>A model photo, then the tee, then the sweat.\<close>

definition st_base :: AppState where
  "st_base = handleModelFinalized initial_state ''model.png''"

definition st_tee :: AppState where
  "st_tee = the (handleItemSelect st_base ''tee-file'' tee (Image ''tee.png''))"





text \<open>The tee worn, and a second pose generated for it.\<close>

definition st_pose1 :: AppState where
  "st_pose1 = the (handlePoseSelect st_tee 1 (Image ''tee-pose1.png''))"

text \<open>
  With the second pose of the tee selected, the sweat is added (its image is keyed at
  that pose), taken off, and put on again from the cache: the pose position is 0, and
  the sweat has no image for it.
\<close>

definition st_sweat_cached :: AppState where
  "st_sweat_cached =
     fst (handleItemSelect_start
            (handleRemoveLastGarment
               (the (handleItemSelect st_pose1 ''sweat-file'' sweat (Image ''sweat.png''))))
            ''sweat-file'' sweat)"

text \<open>The tee taken off, and a pose change of the base layer in flight.\<close>

definition st_undo_busy :: AppState where
  "st_undo_busy = fst (handlePoseSelect_start (handleRemoveLastGarment st_tee) 1)"

text \<open>The tee worn and a pose change in flight; then the palette of the tee is clicked.\<close>

definition st_busy :: AppState where
  "st_busy = fst (handlePoseSelect_start st_tee 1)"

definition st_busy_picker :: AppState where
  "st_busy_picker = handleOpenColorPicker st_busy 1"

text \<open>The tee worn and the outfit saved; then a second pose is generated.\<close>

definition st_saved :: AppState where
  "st_saved = handleSaveOutfit st_tee (Some ''look'') ''1762150000000''"

definition st_saved_posed :: AppState where
  "st_saved_posed = the (handlePoseSelect st_saved 1 (Image ''tee-pose1.png''))"


text \<open>
  Two add-item calls overlapping: the sweat is requested; while that call is in flight
  the tee is recoloured, which ends with \<open>setIsLoading(false)\<close>; the hat is then
  requested and arrives; at last the answer for the sweat arrives.
\<close>

definition st_overlap1 :: AppState where
  "st_overlap1 = fst (handleItemSelect_start st_tee ''sweat-file'' sweat)"

definition st_overlap2 :: AppState where
  "st_overlap2 =
     the (handleRecolorGarment (handleOpenColorPicker st_overlap1 1) ''#dc2626''
            (Image ''red-tee.png''))"

definition st_overlap3 :: AppState where
  "st_overlap3 = the (handleItemSelect st_overlap2 ''hat-file'' hat (Image ''hat.png''))"

definition st_overlap4 :: AppState where
  "st_overlap4 = the (resolve st_overlap3 (PendingAdd sweat 0 1) (Image ''sweat.png''))"

text \<open>
  The tee is clicked twice in the wardrobe panel before the first \<open>urlToFile\<close> has
  settled: both clicks are made in \<open>st_base\<close>. The two files arrive, then the two
  answers of the Gateway.
\<close>

definition st_click1 :: AppState where
  "st_click1 = fst (fst (handleItemClick_loaded st_base st_base tee (Some ''tee-file'')))"

definition st_click2 :: AppState where
  "st_click2 = fst (fst (handleItemClick_loaded st_base st_click1 tee (Some ''tee-file'')))"

definition st_click3 :: AppState where
  "st_click3 = the (resolve st_click2 (PendingAdd tee 0 0) (Image ''tee.png''))"

definition st_click4 :: AppState where
  "st_click4 = the (resolve st_click3 (PendingAdd tee 0 0) (Image ''tee-2.png''))"

section \<open>Basic facts\<close>

lemma js_slice0_take: "0 \<le> e \<Longrightarrow> js_slice0 xs e = take (nat e) xs"
  by (simp add: js_slice0_def)

lemma js_nth_Some: "js_nth xs i = Some x \<longleftrightarrow> 0 \<le> i \<and> i < int (length xs) \<and> xs ! nat i = x"
  by (auto simp: js_nth_def)

lemma start_add_await:
  assumes "handleItemSelect_start s itemFile itemInfo = (s1, Await req p)"
  shows "p = PendingAdd itemInfo (currentPoseIndex s) (currentOutfitIndex s)
     \<and> s1 = s\<lparr>error := None, isLoading := True,
               loadingMessage := ''Adding '' @ item_name itemInfo @ ''...''\<rparr>
     \<and> \<not> isLoading s \<and> truthy (displayImageUrl s) \<and> \<not> same_item_next s itemInfo"
  using assms
  by (auto simp: handleItemSelect_start_def split: option.splits if_splits)

lemma start_add_done:
  assumes "handleItemSelect_start s itemFile itemInfo = (s1, Done)"
  shows "s1 = s\<lparr>currentOutfitIndex := currentOutfitIndex s + 1, currentPoseIndex := 0\<rparr>
     \<and> \<not> isLoading s \<and> truthy (displayImageUrl s) \<and> same_item_next s itemInfo"
  using assms
  by (auto simp: handleItemSelect_start_def split: option.splits if_splits)

lemma start_pose_await:
  assumes "handlePoseSelect_start s newIndex = (s1, Await req p)"
  shows "p = PendingPose newIndex (currentPoseIndex s) (currentOutfitIndex s)
     \<and> s1 = s\<lparr>error := None, isLoading := True, loadingMessage := ''Changing pose...'',
               currentPoseIndex := newIndex\<rparr>
     \<and> \<not> isLoading s \<and> outfitHistory s \<noteq> [] \<and> newIndex \<noteq> currentPoseIndex s
     \<and> (\<exists>a. js_nth (outfitHistory s) (currentOutfitIndex s) = Some a
            \<and> \<not> truthy (obj_get (poseImages (layer_at s a)) (pose_key newIndex))
            \<and> truthy (first_value (poseImages (layer_at s a))))"
  using assms
  by (auto simp: handlePoseSelect_start_def split: option.splits if_splits)

lemma start_recolor_await:
  assumes "handleRecolorGarment_start s colorName = (s1, Await req p)"
  shows "\<exists>i a it. selectedLayerIndexForRecolor s = Some i
     \<and> p = PendingRecolor i (currentPoseIndex s)
     \<and> s1 = s\<lparr>error := None, isLoading := True,
               loadingMessage := ''Recoloring to '' @ colorName @ ''...''\<rparr>
     \<and> truthy (displayImageUrl s)
     \<and> js_nth (outfitHistory s) i = Some a \<and> item (layer_at s a) = Some it"
  using assms
  by (auto simp: handleRecolorGarment_start_def split: option.splits if_splits)


lemma start_pose_await_if:
  assumes idle: "\<not> isLoading s"
    and other: "newIndex \<noteq> currentPoseIndex s"
    and active: "js_nth (outfitHistory s) (currentOutfitIndex s) = Some a"
    and fresh: "\<not> truthy (obj_get (poseImages (layer_at s a)) (pose_key newIndex))"
    and base: "first_value (poseImages (layer_at s a)) = Some b" "b \<noteq> []"
  shows "handlePoseSelect_start s newIndex =
     (s\<lparr>error := None, isLoading := True, loadingMessage := ''Changing pose...'',
        currentPoseIndex := newIndex\<rparr>,
      Await (PoseVariation b (js_nth POSE_INSTRUCTIONS newIndex))
        (PendingPose newIndex (currentPoseIndex s) (currentOutfitIndex s)))"
proof -
  from active have "outfitHistory s \<noteq> []"
    by (auto simp: js_nth_Some)
  with assms show ?thesis
    by (simp add: handlePoseSelect_start_def)
qed

lemma closure_of_own_render:
  "handleItemSelect_closure s s itemFile itemInfo = handleItemSelect_start s itemFile itemInfo"
  by (simp add: handleItemSelect_closure_def handleItemSelect_start_def)

text \<open>Unfolding sets for evaluating the example sessions.\<close>

lemmas base_defs = initial_state_def tee_def st_base_def st_tee_def

lemmas run_defs = handleModelFinalized_def handleItemSelect_def handleItemSelect_start_def
  handleItemSelect_resolve_def handleRemoveLastGarment_def handlePoseSelect_def
  handlePoseSelect_start_def handlePoseSelect_resolve_def handleSaveOutfit_def
  handleLoadOutfit_def handleOpenColorPicker_def handleRecolorGarment_def
  handleRecolorGarment_start_def handleRecolorGarment_resolve_def
  displayImageUrl_def js_nth_def js_slice0_def same_item_next_def layer_at_def obj_get_def
  pose_key_def POSE_INSTRUCTIONS_def optional_id_def add_if_absent_def stringify_def

section \<open>Appending a layer\<close>








section \<open>Re-adding the cached item\<close>

text \<open>
  The guard of \<open>handleItemSelect\<close> comes before the cache test: while an action is in
  flight a request is ignored even if the next layer holds the selected item. Here the
  tee was taken off and a pose change is in flight; the tee is selected again and the
  active position stays where it is.
\<close>

lemma st_undo_busy_fields:
  "isLoading st_undo_busy"
  "outfitHistory st_undo_busy = [0, 1]"
  "currentOutfitIndex st_undo_busy = 0"
  "same_item_next st_undo_busy tee"
  by (simp_all add: base_defs st_undo_busy_def run_defs)

theorem cache_hit_ignored_while_busy:
  "same_item_next st_undo_busy tee
   \<and> handleItemSelect_start st_undo_busy ''tee-file'' tee = (st_undo_busy, Ignored)
   \<and> currentOutfitIndex (fst (handleItemSelect_start st_undo_busy ''tee-file'' tee))
       \<noteq> currentOutfitIndex st_undo_busy + 1"
proof -
  have "handleItemSelect_start st_undo_busy ''tee-file'' tee = (st_undo_busy, Ignored)"
    using st_undo_busy_fields(1)
    by (simp add: handleItemSelect_start_def split: option.splits)
  then show ?thesis
    by (simp add: st_undo_busy_fields)
qed

text \<open>
  Claim C2, amended. When no action is in flight and a display image exists, and the
  layer after the active position holds an item with the selected item's id, the handler
  returns without calling the Gateway: the active position advances by one, the pose
  position becomes 0, and the history, the layer objects, the wardrobe and the
  accessories are unchanged.
\<close>

theorem cache_hit_advances_without_gateway:
  assumes idle: "\<not> isLoading s"
    and shown: "truthy (displayImageUrl s)"
    and nxt: "js_nth (outfitHistory s) (currentOutfitIndex s + 1) = Some a"
    and same: "item (layer_at s a) = Some cached" "item_id cached = item_id itemInfo"
  shows "handleItemSelect_start s itemFile itemInfo =
           (s\<lparr>currentOutfitIndex := currentOutfitIndex s + 1, currentPoseIndex := 0\<rparr>, Done)
     \<and> (\<forall>r. \<exists>s2. handleItemSelect s itemFile itemInfo r = Some s2
           \<and> currentOutfitIndex s2 = currentOutfitIndex s + 1
           \<and> currentPoseIndex s2 = 0
           \<and> outfitHistory s2 = outfitHistory s \<and> heap s2 = heap s
           \<and> wardrobe s2 = wardrobe s \<and> accessories s2 = accessories s)"
proof -
  have hit: "same_item_next s itemInfo"
    using nxt same by (simp add: same_item_next_def optional_id_def)
  obtain d where d: "displayImageUrl s = Some d" "d \<noteq> []"
    using shown by (cases "displayImageUrl s") auto
  have st: "handleItemSelect_start s itemFile itemInfo =
           (s\<lparr>currentOutfitIndex := currentOutfitIndex s + 1, currentPoseIndex := 0\<rparr>, Done)"
    using idle hit d by (simp add: handleItemSelect_start_def)
  then show ?thesis
    by (simp add: handleItemSelect_def)
qed

lemma st_undo_fields:
  "\<not> isLoading (handleRemoveLastGarment st_tee)"
  "displayImageUrl (handleRemoveLastGarment st_tee) = Some ''model.png''"
  "js_nth (outfitHistory (handleRemoveLastGarment st_tee))
     (currentOutfitIndex (handleRemoveLastGarment st_tee) + 1) = Some 1"
  "item (layer_at (handleRemoveLastGarment st_tee) 1) = Some tee"
  "currentOutfitIndex (handleRemoveLastGarment st_tee) = 0"
  "outfitHistory (handleRemoveLastGarment st_tee) = [0, 1]"
  by (simp_all add: base_defs run_defs)

theorem cache_hit_advances_without_gateway_witness:
  "\<not> isLoading (handleRemoveLastGarment st_tee)
   \<and> truthy (displayImageUrl (handleRemoveLastGarment st_tee))
   \<and> js_nth (outfitHistory (handleRemoveLastGarment st_tee))
        (currentOutfitIndex (handleRemoveLastGarment st_tee) + 1) = Some 1
   \<and> item (layer_at (handleRemoveLastGarment st_tee) 1) = Some tee
   \<and> snd (handleItemSelect_start (handleRemoveLastGarment st_tee) ''tee-file'' tee) = Done
   \<and> currentOutfitIndex
        (fst (handleItemSelect_start (handleRemoveLastGarment st_tee) ''tee-file'' tee)) = 1
   \<and> outfitHistory
        (fst (handleItemSelect_start (handleRemoveLastGarment st_tee) ''tee-file'' tee)) = [0, 1]"
proof -
  have shown: "truthy (displayImageUrl (handleRemoveLastGarment st_tee))"
    by (simp add: st_undo_fields)
  note hit = cache_hit_advances_without_gateway
    [OF st_undo_fields(1) shown st_undo_fields(3) st_undo_fields(4) refl, of "''tee-file''",
     THEN conjunct1]
  show ?thesis
    using st_undo_fields shown hit by simp
qed

section \<open>Changing the pose\<close>

lemma st_tee_fields:
  "outfitHistory st_tee = [0, 1]"
  "currentOutfitIndex st_tee = 1"
  "currentPoseIndex st_tee = 0"
  "\<not> isLoading st_tee"
  "heap st_tee = [\<lparr>item = None, poseImages = [(pose_key 0, ''model.png'')]\<rparr>,
                  \<lparr>item = Some tee, poseImages = [(pose_key 0, ''tee.png'')]\<rparr>]"
  "displayImageUrl st_tee = Some ''tee.png''"
  by (simp_all add: base_defs run_defs)

lemma st_tee_pose_start:
  "handlePoseSelect_start st_tee 1 =
     (st_busy, Await (PoseVariation ''tee.png'' (Some ''Slightly turned, 3/4 view''))
                 (PendingPose 1 0 1))"
  by (simp add: base_defs st_busy_def run_defs)

lemma st_busy_fields:
  "isLoading st_busy"
  "currentPoseIndex st_busy = 1"
  "js_nth (outfitHistory st_busy) (currentOutfitIndex st_busy) = Some 1"
  "obj_get (poseImages (layer_at st_busy 1)) (pose_key 2) = None"
  by (simp_all add: base_defs st_busy_def run_defs)

text \<open>
  A request is dropped while another action is in flight, also when it asks for a pose
  the active layer has no image for. Here a pose change of the tee is in flight and the
  third pose is requested: no call is made and the selected pose position does not
  become 2.
\<close>

theorem pose_request_ignored_while_busy:
  "isLoading st_busy
   \<and> js_nth (outfitHistory st_busy) (currentOutfitIndex st_busy) = Some 1
   \<and> obj_get (poseImages (layer_at st_busy 1)) (pose_key 2) = None
   \<and> handlePoseSelect_start st_busy 2 = (st_busy, Ignored)
   \<and> currentPoseIndex (fst (handlePoseSelect_start st_busy 2)) \<noteq> 2"
proof -
  have "handlePoseSelect_start st_busy 2 = (st_busy, Ignored)"
    using st_busy_fields(1) by (simp add: handlePoseSelect_start_def)
  then show ?thesis
    using st_busy_fields by simp
qed

text \<open>
  A request for the selected pose is dropped as well, whether or not the active layer
  has an image for it: the sweat put on again from the cache has no image for pose 0,
  which is the selected one, and the request for pose 0 makes no call.
\<close>

lemma selected_pose_request_ignored:
  "\<not> isLoading st_sweat_cached
   \<and> currentPoseIndex st_sweat_cached = 0
   \<and> js_nth (outfitHistory st_sweat_cached) (currentOutfitIndex st_sweat_cached) = Some 2
   \<and> poseImages (layer_at st_sweat_cached 2) = [(pose_key 1, ''sweat.png'')]
   \<and> handlePoseSelect_start st_sweat_cached 0 = (st_sweat_cached, Ignored)"
  by (simp add: base_defs st_pose1_def sweat_def st_sweat_cached_def run_defs)

text \<open>
  Claim C3, amended. For a pose-change request made while no action is in flight, for a
  pose other than the selected one that has no image yet in the active layer (which has
  a first image to start from): the Gateway is called, and the selected pose position
  is already the new index while the call is in flight; if the call fails, the position
  is again exactly what it was before the attempt and no layer object, so no pose-image
  map, has changed. The reverting holds for whatever state the answer finds: the
  handler restores the value it kept in its closure.
\<close>

theorem pose_request_optimistic_then_reverted:
  assumes idle: "\<not> isLoading s"
    and other: "newIndex \<noteq> currentPoseIndex s"
    and active: "js_nth (outfitHistory s) (currentOutfitIndex s) = Some a"
    and fresh: "\<not> truthy (obj_get (poseImages (layer_at s a)) (pose_key newIndex))"
    and base: "truthy (first_value (poseImages (layer_at s a)))"
  shows "\<exists>s1 req p. handlePoseSelect_start s newIndex = (s1, Await req p)
     \<and> currentPoseIndex s1 = newIndex
     \<and> heap s1 = heap s \<and> outfitHistory s1 = outfitHistory s
     \<and> (\<exists>s2. handlePoseSelect s newIndex (Failed err) = Some s2
            \<and> currentPoseIndex s2 = currentPoseIndex s
            \<and> heap s2 = heap s \<and> outfitHistory s2 = outfitHistory s
            \<and> currentOutfitIndex s2 = currentOutfitIndex s)
     \<and> (\<forall>t. \<exists>t2. resolve t p (Failed err) = Some t2
            \<and> currentPoseIndex t2 = currentPoseIndex s
            \<and> heap t2 = heap t \<and> outfitHistory t2 = outfitHistory t)"
proof -
  from base obtain b where b: "first_value (poseImages (layer_at s a)) = Some b" "b \<noteq> []"
    by (cases "first_value (poseImages (layer_at s a))") auto
  let ?s1 = "s\<lparr>error := None, isLoading := True, loadingMessage := ''Changing pose...'',
        currentPoseIndex := newIndex\<rparr>"
  let ?p = "PendingPose newIndex (currentPoseIndex s) (currentOutfitIndex s)"
  have start: "handlePoseSelect_start s newIndex =
      (?s1, Await (PoseVariation b (js_nth POSE_INSTRUCTIONS newIndex)) ?p)"
    by (rule start_pose_await_if [OF idle other active fresh b])
  have run: "handlePoseSelect s newIndex (Failed err) = resolve ?s1 ?p (Failed err)"
    by (simp add: handlePoseSelect_def start)
  show ?thesis
    by (simp add: start run handlePoseSelect_resolve_def)
qed

theorem pose_request_optimistic_then_reverted_witness:
  "\<not> isLoading st_tee
   \<and> 1 \<noteq> currentPoseIndex st_tee
   \<and> js_nth (outfitHistory st_tee) (currentOutfitIndex st_tee) = Some 1
   \<and> \<not> truthy (obj_get (poseImages (layer_at st_tee 1)) (pose_key 1))
   \<and> truthy (first_value (poseImages (layer_at st_tee 1)))
   \<and> handlePoseSelect_start st_tee 1 =
       (st_busy, Await (PoseVariation ''tee.png'' (Some ''Slightly turned, 3/4 view''))
                   (PendingPose 1 0 1))
   \<and> currentPoseIndex st_busy = 1
   \<and> (\<exists>s2. handlePoseSelect st_tee 1 (Failed ''quota'') = Some s2
          \<and> currentPoseIndex s2 = 0 \<and> heap s2 = heap st_tee)"
proof -
  have other: "1 \<noteq> currentPoseIndex st_tee"
    by (simp add: st_tee_fields)
  have active: "js_nth (outfitHistory st_tee) (currentOutfitIndex st_tee) = Some 1"
    by (simp add: st_tee_fields js_nth_def)
  have fresh: "\<not> truthy (obj_get (poseImages (layer_at st_tee 1)) (pose_key 1))"
    by (simp add: st_tee_fields layer_at_def obj_get_def pose_key_def js_nth_def
        POSE_INSTRUCTIONS_def)
  have base: "truthy (first_value (poseImages (layer_at st_tee 1)))"
    by (simp add: st_tee_fields layer_at_def)
  note th = pose_request_optimistic_then_reverted
    [OF st_tee_fields(4) other active fresh base, of "''quota''"]
  from th have "\<exists>s2. handlePoseSelect st_tee 1 (Failed ''quota'') = Some s2
          \<and> currentPoseIndex s2 = currentPoseIndex st_tee \<and> heap s2 = heap st_tee"
    by blast
  then have reverted: "\<exists>s2. handlePoseSelect st_tee 1 (Failed ''quota'') = Some s2
          \<and> currentPoseIndex s2 = 0 \<and> heap s2 = heap st_tee"
    by (simp add: st_tee_fields(3))
  from st_tee_fields(4) other active fresh base st_tee_pose_start st_busy_fields(2) reverted
  show ?thesis
    by blast
qed

section \<open>Recolouring\<close>


lemma st_pose1_fields:
  "outfitHistory st_pose1 = [0, 1]"
  "currentOutfitIndex st_pose1 = 1"
  "currentPoseIndex st_pose1 = 1"
  "\<not> isLoading st_pose1"
  "heap st_pose1 = [\<lparr>item = None, poseImages = [(pose_key 0, ''model.png'')]\<rparr>,
                    \<lparr>item = Some tee,
                     poseImages = [(pose_key 0, ''tee.png''), (pose_key 1, ''tee-pose1.png'')]\<rparr>]"
  "displayImageUrl st_pose1 = Some ''tee-pose1.png''"
  by (simp_all add: base_defs st_pose1_def run_defs)




section \<open>Clicking a worn item in the wardrobe panel\<close>

lemma truthy_key: "truthy v \<and> property_key v = x \<longleftrightarrow> v = Some x \<and> x \<noteq> []"
  by (cases v) auto

lemma optional_id_Some:
  "optional_id l = Some x \<longleftrightarrow> (\<exists>it. item l = Some it \<and> item_id it = x)"
  by (cases "item l") (simp_all add: optional_id_def)

lemma activeItemIds_iff:
  "x \<in> set (activeItemIds s) \<longleftrightarrow>
     x \<noteq> [] \<and> (\<exists>a \<in> set (activeOutfitLayers s). \<exists>it. item (layer_at s a) = Some it \<and> item_id it = x)"
proof -
  have "x \<in> set (activeItemIds s) \<longleftrightarrow>
      (\<exists>a \<in> set (activeOutfitLayers s).
         truthy (optional_id (layer_at s a)) \<and> property_key (optional_id (layer_at s a)) = x)"
    unfolding activeItemIds_def by (simp add: image_iff) blast
  also have "\<dots> \<longleftrightarrow> x \<noteq> [] \<and> (\<exists>a \<in> set (activeOutfitLayers s). optional_id (layer_at s a) = Some x)"
    unfolding truthy_key by blast
  finally show ?thesis
    unfolding optional_id_Some .
qed

text \<open>
  Claim C10. A click on a wardrobe item whose id is among \<open>activeItemIds\<close> (the
  non-empty item ids of the layers through the active position, by
  \<open>activeItemIds_iff\<close>) is ignored: \<open>handleItemSelect\<close> is not called, so there is
  no Gateway call, and neither the session nor the panel changes.
\<close>

theorem worn_item_click_ignored:
  assumes "item_id it \<in> set (activeItemIds s)"
  shows "handleItemClick s panelError it file = ((s, Ignored), panelError)"
  using assms by (simp add: handleItemClick_def)

text \<open>
  In terms of the history: the item of a layer at an index from 0 through the active
  position, if its id is not empty.
\<close>

lemma worn_layer_item_click_ignored:
  assumes j: "0 \<le> j" "j \<le> currentOutfitIndex s"
    and layer: "js_nth (outfitHistory s) j = Some a"
    and worn: "item (layer_at s a) = Some w" "item_id w = item_id it"
    and named: "item_id it \<noteq> []"
  shows "handleItemClick s panelError it file = ((s, Ignored), panelError)"
proof -
  from layer have "j < int (length (outfitHistory s))" and ja: "outfitHistory s ! nat j = a"
    by (simp_all add: js_nth_Some)
  with j(1) have jn: "nat j < length (outfitHistory s)"
    by linarith
  have "activeOutfitLayers s = take (nat (currentOutfitIndex s + 1)) (outfitHistory s)"
    using j by (simp add: activeOutfitLayers_def js_slice0_take)
  moreover have "nat j < length (take (nat (currentOutfitIndex s + 1)) (outfitHistory s))"
    using j jn by simp
  moreover have "take (nat (currentOutfitIndex s + 1)) (outfitHistory s) ! nat j = a"
    using j ja by simp
  ultimately have "a \<in> set (activeOutfitLayers s)"
    by (metis nth_mem)
  with worn named have "item_id it \<in> set (activeItemIds s)"
    by (auto simp: activeItemIds_iff)
  then show ?thesis
    by (simp add: handleItemClick_def)
qed

lemma st_tee_active: "activeItemIds st_tee = [''gemini-tee'']"
  by (simp add: base_defs run_defs activeItemIds_def activeOutfitLayers_def)

theorem worn_item_click_ignored_witness:
  "item_id tee \<in> set (activeItemIds st_tee)
   \<and> handleItemClick st_tee None tee (Some ''tee-file'') = ((st_tee, Ignored), None)"
proof -
  have worn: "item_id tee \<in> set (activeItemIds st_tee)"
    by (simp add: st_tee_active tee_def)
  from worn worn_item_click_ignored [OF worn, of None "Some ''tee-file''"]
  show ?thesis by simp
qed

section \<open>The pose position when the active layer changes\<close>






section \<open>Saving an outfit\<close>

lemma st_saved_fields:
  "map layers (savedOutfits st_saved) = [[0, 1]]"
  "map (\<lambda>a. poseImages (layer_at st_saved a)) [0, 1] =
     [[(pose_key 0, ''model.png'')], [(pose_key 0, ''tee.png'')]]"
  "map (map poseImages) (map stored_layers (the (localStorage st_saved))) =
     [[[(pose_key 0, ''model.png'')], [(pose_key 0, ''tee.png'')]]]"
  by (simp_all add: base_defs st_saved_def run_defs)

lemma st_saved_posed_fields:
  "savedOutfits st_saved_posed = savedOutfits st_saved"
  "localStorage st_saved_posed = localStorage st_saved"
  "map (\<lambda>a. poseImages (layer_at st_saved_posed a)) [0, 1] =
     [[(pose_key 0, ''model.png'')],
      [(pose_key 0, ''tee.png''), (pose_key 1, ''tee-pose1.png'')]]"
  by (simp_all add: base_defs st_saved_posed_def st_saved_def run_defs)

text \<open>
  Claim C5. \<open>handleSaveOutfit\<close> stores \<open>layers: outfitHistory\<close>: the saved outfit
  holds the addresses of the live layer objects. With the tee worn and the outfit
  saved, generating a second pose writes the new image into the tee's layer object, and
  the saved outfit, whose addresses have not changed, now has two pose images in that
  layer where it had one when it was saved. Only the string written to the browser
  storage is a copy by value, and it is not rewritten.
\<close>

theorem saved_outfit_shares_layer_objects:
  "map layers (savedOutfits st_saved) = [[0, 1]]
   \<and> map layers (savedOutfits st_saved_posed) = [[0, 1]]
   \<and> map (\<lambda>a. poseImages (layer_at st_saved a)) [0, 1] =
        [[(pose_key 0, ''model.png'')], [(pose_key 0, ''tee.png'')]]
   \<and> map (\<lambda>a. poseImages (layer_at st_saved_posed a)) [0, 1] =
        [[(pose_key 0, ''model.png'')],
         [(pose_key 0, ''tee.png''), (pose_key 1, ''tee-pose1.png'')]]
   \<and> localStorage st_saved_posed = localStorage st_saved"
  using st_saved_fields st_saved_posed_fields by simp

section \<open>Actions while another is in flight\<close>

lemma add_ignored_while_busy:
  "isLoading s \<Longrightarrow> handleItemSelect_start s itemFile itemInfo = (s, Ignored)"
  by (simp add: handleItemSelect_start_def split: option.splits)

lemma pose_ignored_while_busy:
  "isLoading s \<Longrightarrow> handlePoseSelect_start s newIndex = (s, Ignored)"
  by (simp add: handlePoseSelect_start_def)

lemma st_busy_picker_fields:
  "isLoading st_busy_picker"
  "outfitHistory st_busy_picker = [0, 1]"
  "handleRecolorGarment_start st_busy_picker ''#dc2626'' =
     (st_busy_picker\<lparr>error := None, isLoading := True,
         loadingMessage := ''Recoloring to #dc2626...''\<rparr>,
      Await (ColorVariation ''tee.png'' ''Gemini Tee'' ''#dc2626'') (PendingRecolor 1 1))"
  "map_option outfitHistory
     (handleRecolorGarment st_busy_picker ''#dc2626'' (Image ''red-tee.png'')) = Some [0, 2]"
  by (simp_all add: base_defs st_busy_picker_def st_busy_def run_defs)

text \<open>
  Claim C6. \<open>handleItemSelect\<close> and \<open>handlePoseSelect\<close> return at once while
  \<open>isLoading\<close> is set (the two lemmas above); \<open>handleRecolorGarment\<close> has no such
  test, and neither the palette button nor the colour picker is disabled while
  loading. With a pose change in flight, the palette of the tee is clicked and a colour
  chosen: the Gateway is called a second time, and its answer replaces the layer in the
  history.
\<close>

theorem recolor_runs_while_busy:
  "isLoading st_busy_picker
   \<and> outfitHistory st_busy_picker = [0, 1]
   \<and> snd (handleRecolorGarment_start st_busy_picker ''#dc2626'') =
        Await (ColorVariation ''tee.png'' ''Gemini Tee'' ''#dc2626'') (PendingRecolor 1 1)
   \<and> map_option outfitHistory
        (handleRecolorGarment st_busy_picker ''#dc2626'' (Image ''red-tee.png'')) = Some [0, 2]"
  using st_busy_picker_fields by simp

text \<open>
  \<open>handleSaveOutfit\<close> does not test \<open>isLoading\<close> either; its only caller is a button
  that is disabled while loading.
\<close>

lemma save_handler_has_no_busy_test:
  "isLoading st_busy
   \<and> length (savedOutfits (handleSaveOutfit st_busy (Some ''look'') ''1762150000000'')) =
       length (savedOutfits st_busy) + 1"
  by (simp add: base_defs st_busy_def run_defs)

text \<open>
  Since a recolour ends with \<open>setIsLoading(false)\<close>, it reopens the session while an
  earlier add-item call is still in flight. A second add-item can then start; when both
  answers have arrived, the active position is 3 in a history of three layers.
\<close>

lemma overlapping_adds_leave_the_history:
  "\<not> isLoading st_overlap2
   \<and> outfitHistory st_overlap4 = [0, 2, 4]
   \<and> currentOutfitIndex st_overlap4 = 3
   \<and> \<not> position_inv st_overlap4"
  by (simp add: base_defs st_overlap2_def st_overlap1_def sweat_def st_overlap4_def
      st_overlap3_def hat_def run_defs position_inv_def)

section \<open>The position invariant\<close>

text \<open>
  One operation at a time: an operation whose Gateway call is answered before anything
  else happens keeps the position inside the history. \<open>position_inv\<close> alone is not
  kept (an add-item on an empty history that comes with a model image and the position
  0 would give one layer and the position 1), but no operation leaves such a state:
  \<open>handleStartOver\<close> clears the model image, and \<open>handleLoadOutfit\<close> sets the position
  to \<open>length - 1\<close>. \<open>session_inv\<close> records this, holds when the component mounts, and
  is kept by every operation run in this way.
\<close>

lemma session_inv_same_shape:
  assumes "session_inv s"
    and "length (outfitHistory t) = length (outfitHistory s)"
    and "currentOutfitIndex t = currentOutfitIndex s"
    and "modelImageUrl t = modelImageUrl s"
  shows "session_inv t"
  using assms by (auto simp: session_inv_def position_inv_def)

lemma session_inv_initial: "session_inv initial_state"
  by (simp add: session_inv_def position_inv_def initial_state_def)

lemma inv_init: "session_inv (handleModelFinalized s u)"
  by (simp add: session_inv_def position_inv_def handleModelFinalized_def)

lemma inv_start_over: "session_inv (handleStartOver s)"
  by (simp add: session_inv_def position_inv_def handleStartOver_def)

lemma inv_remove: "session_inv s \<Longrightarrow> session_inv (handleRemoveLastGarment s)"
  by (auto simp: session_inv_def position_inv_def handleRemoveLastGarment_def)

lemma inv_load: "session_inv s \<Longrightarrow> session_inv (handleLoadOutfit s outfit confirmed)"
  by (auto simp: session_inv_def position_inv_def handleLoadOutfit_def)

lemma inv_save: "session_inv s \<Longrightarrow> session_inv (handleSaveOutfit s name now)"
  by (simp add: session_inv_def position_inv_def handleSaveOutfit_def)

lemma inv_delete: "session_inv s \<Longrightarrow> session_inv (handleDeleteOutfit s outfitId confirmed)"
  by (simp add: session_inv_def position_inv_def handleDeleteOutfit_def)

lemma inv_picker: "session_inv s \<Longrightarrow> session_inv (handleOpenColorPicker s i)"
  by (simp add: session_inv_def position_inv_def handleOpenColorPicker_def)

lemma start_add_other:
  assumes "handleItemSelect_start s itemFile itemInfo = (s1, oc)" "oc = Ignored \<or> oc = Threw"
  shows "s1 = s"
  using assms by (auto simp: handleItemSelect_start_def split: option.splits if_splits)

lemma display_of_empty_history:
  "outfitHistory s = [] \<Longrightarrow> displayImageUrl s = modelImageUrl s"
  by (simp add: displayImageUrl_def)

lemma inv_add:
  assumes inv: "session_inv s"
  shows "\<exists>s'. handleItemSelect s itemFile itemInfo r = Some s' \<and> session_inv s'"
proof -
  obtain s1 oc where start: "handleItemSelect_start s itemFile itemInfo = (s1, oc)"
    by (cases "handleItemSelect_start s itemFile itemInfo")
  show ?thesis
  proof (cases oc)
    case Ignored
    with start start_add_other [OF start] inv show ?thesis
      by (simp add: handleItemSelect_def)
  next
    case Threw
    with start start_add_other [OF start] inv show ?thesis
      by (simp add: handleItemSelect_def)
  next
    case Done
    from start_add_done [OF start [unfolded Done]]
    have s1: "s1 = s\<lparr>currentOutfitIndex := currentOutfitIndex s + 1, currentPoseIndex := 0\<rparr>"
      and hit: "same_item_next s itemInfo"
      by simp_all
    from hit obtain a where "js_nth (outfitHistory s) (currentOutfitIndex s + 1) = Some a"
      by (auto simp: same_item_next_def split: option.splits)
    then have "0 \<le> currentOutfitIndex s + 1"
      and "currentOutfitIndex s + 1 < int (length (outfitHistory s))"
      by (simp_all add: js_nth_Some)
    then have "session_inv s1"
      by (auto simp: s1 session_inv_def position_inv_def)
    then show ?thesis
      by (simp add: handleItemSelect_def start Done)
  next
    case (Await req p)
    from start_add_await [OF start [unfolded Await]]
    have p: "p = PendingAdd itemInfo (currentPoseIndex s) (currentOutfitIndex s)"
      and s1: "s1 = s\<lparr>error := None, isLoading := True,
               loadingMessage := ''Adding '' @ item_name itemInfo @ ''...''\<rparr>"
      and shown: "truthy (displayImageUrl s)"
      by simp_all
    have run: "\<And>g. handleItemSelect s itemFile itemInfo g =
        Some (handleItemSelect_resolve s1 itemInfo (currentPoseIndex s) (currentOutfitIndex s) g)"
      by (simp add: handleItemSelect_def start Await p)
    show ?thesis
    proof (cases r)
      case (Failed err)
      have "session_inv (handleItemSelect_resolve s1 itemInfo (currentPoseIndex s)
          (currentOutfitIndex s) (Failed err))"
        using inv by (simp add: handleItemSelect_resolve_def s1 session_inv_def position_inv_def)
      then show ?thesis by (simp add: run Failed)
    next
      case (Image img)
      have sl: "int (length (js_slice0 (outfitHistory s) (currentOutfitIndex s + 1))) =
          currentOutfitIndex s + 1"
      proof (cases "outfitHistory s = []")
        case True
        with shown have "truthy (modelImageUrl s)"
          by (simp add: display_of_empty_history)
        with True inv have "currentOutfitIndex s = - 1"
          by (simp add: session_inv_def)
        with True show ?thesis by (simp add: js_slice0_def)
      next
        case False
        with inv have "0 \<le> currentOutfitIndex s"
          and "currentOutfitIndex s < int (length (outfitHistory s))"
          by (simp_all add: session_inv_def position_inv_def)
        then show ?thesis by (simp add: js_slice0_take)
      qed
      have "session_inv (handleItemSelect_resolve s1 itemInfo (currentPoseIndex s)
          (currentOutfitIndex s) (Image img))"
        using sl by (simp add: handleItemSelect_resolve_def s1 session_inv_def position_inv_def)
      then show ?thesis by (simp add: run Image)
    qed
  qed
qed

lemma start_pose_shape:
  assumes "handlePoseSelect_start s newIndex = (s1, oc)"
  shows "outfitHistory s1 = outfitHistory s \<and> currentOutfitIndex s1 = currentOutfitIndex s
     \<and> modelImageUrl s1 = modelImageUrl s"
  using assms by (auto simp: handlePoseSelect_start_def split: option.splits if_splits)

lemma inv_pose:
  assumes inv: "session_inv s"
  shows "\<exists>s'. handlePoseSelect s newIndex r = Some s' \<and> session_inv s'"
proof -
  obtain s1 oc where start: "handlePoseSelect_start s newIndex = (s1, oc)"
    by (cases "handlePoseSelect_start s newIndex")
  from start_pose_shape [OF start] inv have inv1: "session_inv s1"
    by (auto intro: session_inv_same_shape)
  show ?thesis
  proof (cases oc)
    case (Await req p)
    from start_pose_await [OF start [unfolded Await]]
    obtain a where p: "p = PendingPose newIndex (currentPoseIndex s) (currentOutfitIndex s)"
      and a: "js_nth (outfitHistory s) (currentOutfitIndex s) = Some a"
      by blast
    from a start_pose_shape [OF start]
    have a1: "js_nth (outfitHistory s1) (currentOutfitIndex s) = Some a"
      by simp
    obtain s' where res: "handlePoseSelect_resolve s1 newIndex (currentPoseIndex s)
        (currentOutfitIndex s) r = Some s'"
      and shape: "outfitHistory s' = outfitHistory s1"
        "currentOutfitIndex s' = currentOutfitIndex s1" "modelImageUrl s' = modelImageUrl s1"
      by (cases r) (simp_all add: handlePoseSelect_resolve_def a1)
    from shape inv1 have "session_inv s'"
      by (auto intro: session_inv_same_shape)
    then show ?thesis
      by (simp add: handlePoseSelect_def start Await p res)
  qed (use inv1 start in \<open>simp_all add: handlePoseSelect_def\<close>)
qed

lemma start_recolor_shape:
  assumes "handleRecolorGarment_start s colorName = (s1, oc)"
  shows "outfitHistory s1 = outfitHistory s \<and> currentOutfitIndex s1 = currentOutfitIndex s
     \<and> modelImageUrl s1 = modelImageUrl s"
  using assms by (auto simp: handleRecolorGarment_start_def split: option.splits if_splits)

lemma resolve_recolor_shape:
  "length (outfitHistory (handleRecolorGarment_resolve s i k r)) = length (outfitHistory s)
   \<and> currentOutfitIndex (handleRecolorGarment_resolve s i k r) = currentOutfitIndex s
   \<and> modelImageUrl (handleRecolorGarment_resolve s i k r) = modelImageUrl s"
  by (simp add: handleRecolorGarment_resolve_def split: GatewayResult.splits option.splits)

lemma inv_recolor:
  assumes inv: "session_inv s"
  shows "\<exists>s'. handleRecolorGarment s colorName r = Some s' \<and> session_inv s'"
proof -
  obtain s1 oc where start: "handleRecolorGarment_start s colorName = (s1, oc)"
    by (cases "handleRecolorGarment_start s colorName")
  from start_recolor_shape [OF start] inv have inv1: "session_inv s1"
    by (auto intro: session_inv_same_shape)
  show ?thesis
  proof (cases oc)
    case (Await req p)
    from start_recolor_await [OF start [unfolded Await]]
    obtain i where p: "p = PendingRecolor i (currentPoseIndex s)"
      by blast
    have "session_inv (handleRecolorGarment_resolve s1 i (currentPoseIndex s) r)"
      using resolve_recolor_shape [of s1 i "currentPoseIndex s" r] inv1
      by (auto intro: session_inv_same_shape)
    then show ?thesis
      by (simp add: handleRecolorGarment_def start Await p)
  qed (use inv1 start in \<open>simp_all add: handleRecolorGarment_def\<close>)
qed

text \<open>
  Two calls that overlap are not covered by these lemmas. The panel tests \<open>isLoading\<close>
  before it awaits \<open>urlToFile\<close>, so a second click made before the first file has
  loaded passes the guard; both continuations then call the \<open>handleItemSelect\<close> of the
  render of the clicks, whose \<open>isLoading\<close> is false, and each answer of the Gateway
  cuts the history at the same index and advances the position.
\<close>

lemma st_click_fields:
  "\<not> isLoading st_base"
  "activeItemIds st_base = []"
  "outfitHistory st_base = [0]"
  "currentOutfitIndex st_base = 0"
  "snd (fst (handleItemClick_loaded st_base st_base tee (Some ''tee-file''))) =
     Await (VirtualTryOn ''model.png'' ''tee-file'') (PendingAdd tee 0 0)"
  "isLoading st_click1"
  "snd (fst (handleItemClick_loaded st_base st_click1 tee (Some ''tee-file''))) =
     Await (VirtualTryOn ''model.png'' ''tee-file'') (PendingAdd tee 0 0)"
  "outfitHistory st_click3 = [0, 1]"
  "currentOutfitIndex st_click3 = 1"
  "outfitHistory st_click4 = [0, 2]"
  "currentOutfitIndex st_click4 = 2"
  by (simp_all add: base_defs st_click1_def st_click2_def st_click3_def st_click4_def run_defs
      handleItemClick_loaded_def handleItemSelect_closure_def activeItemIds_def
      activeOutfitLayers_def)

text \<open>
  Claim C9. The tee is clicked twice in the wardrobe panel before its file has loaded.
  Both clicks pass the guard of the panel, both files lead to a call of the Gateway,
  and after the two answers the history has two layers and the active position is 2:
  the history is non-empty and the position is not below its length.
\<close>

theorem double_click_leaves_the_history:
  "\<not> isLoading st_base
   \<and> item_id tee \<notin> set (activeItemIds st_base)
   \<and> outfitHistory st_base = [0] \<and> currentOutfitIndex st_base = 0
   \<and> snd (fst (handleItemClick_loaded st_base st_base tee (Some ''tee-file''))) =
        Await (VirtualTryOn ''model.png'' ''tee-file'') (PendingAdd tee 0 0)
   \<and> isLoading st_click1
   \<and> snd (fst (handleItemClick_loaded st_base st_click1 tee (Some ''tee-file''))) =
        Await (VirtualTryOn ''model.png'' ''tee-file'') (PendingAdd tee 0 0)
   \<and> outfitHistory st_click3 = [0, 1] \<and> currentOutfitIndex st_click3 = 1
   \<and> outfitHistory st_click4 = [0, 2] \<and> currentOutfitIndex st_click4 = 2
   \<and> int (length (outfitHistory st_click4)) \<le> currentOutfitIndex st_click4"
  using st_click_fields by simp

text \<open>
  The same with the cached item and no call of the Gateway at all: the tee is taken off
  and clicked twice; each continuation finds the tee in the next layer of its own
  render and advances the position.
\<close>

lemma double_click_on_cached_item:
  "outfitHistory (handleRemoveLastGarment st_tee) = [0, 1]
   \<and> currentOutfitIndex (handleRemoveLastGarment st_tee) = 0
   \<and> handleItemClick_loaded (handleRemoveLastGarment st_tee)
        (fst (fst (handleItemClick_loaded (handleRemoveLastGarment st_tee)
                     (handleRemoveLastGarment st_tee) tee (Some ''tee-file''))))
        tee (Some ''tee-file'') =
       (((handleRemoveLastGarment st_tee)\<lparr>currentOutfitIndex := 2, currentPoseIndex := 0\<rparr>,
         Done), None)"
  by (simp add: base_defs run_defs handleItemClick_loaded_def handleItemSelect_closure_def)

lemma double_click_breaks_position_inv:
  "position_inv st_base \<and> position_inv st_click3 \<and> \<not> position_inv st_click4"
  using st_click_fields by (simp add: position_inv_def)

section \<open>Undoing add-item calls\<close>

lemma successful_add_step:
  assumes add: "successful_add t x = Some t'"
    and lo: "0 \<le> currentOutfitIndex t"
    and hi: "currentOutfitIndex t < int (length (outfitHistory t))"
  shows "currentOutfitIndex t' = currentOutfitIndex t + 1
     \<and> currentOutfitIndex t' < int (length (outfitHistory t'))
     \<and> take (nat (currentOutfitIndex t) + 1) (outfitHistory t') =
         take (nat (currentOutfitIndex t) + 1) (outfitHistory t)
     \<and> take (length (heap t)) (heap t') = heap t"
proof -
  obtain itemFile itemInfo img where x: "x = (itemFile, itemInfo, img)"
    by (cases x)
  obtain s1 oc where start: "handleItemSelect_start t itemFile itemInfo = (s1, oc)"
    by (cases "handleItemSelect_start t itemFile itemInfo")
  show ?thesis
  proof (cases oc)
    case Done
    from start_add_done [OF start [unfolded Done]]
    have s1: "s1 = t\<lparr>currentOutfitIndex := currentOutfitIndex t + 1, currentPoseIndex := 0\<rparr>"
      and hit: "same_item_next t itemInfo"
      by simp_all
    from hit obtain a where "js_nth (outfitHistory t) (currentOutfitIndex t + 1) = Some a"
      by (auto simp: same_item_next_def split: option.splits)
    then have "currentOutfitIndex t + 1 < int (length (outfitHistory t))"
      by (simp add: js_nth_Some)
    moreover from add have "t' = s1"
      by (simp add: successful_add_def x start Done)
    ultimately show ?thesis
      by (simp add: s1)
  next
    case (Await req p)
    from start_add_await [OF start [unfolded Await]]
    have p: "p = PendingAdd itemInfo (currentPoseIndex t) (currentOutfitIndex t)"
      and s1: "s1 = t\<lparr>error := None, isLoading := True,
               loadingMessage := ''Adding '' @ item_name itemInfo @ ''...''\<rparr>"
      by simp_all
    from add have t': "t' = handleItemSelect_resolve s1 itemInfo (currentPoseIndex t)
        (currentOutfitIndex t) (Image img)"
      by (simp add: successful_add_def x start Await p)
    have sl: "js_slice0 (outfitHistory t) (currentOutfitIndex t + 1) =
        take (nat (currentOutfitIndex t) + 1) (outfitHistory t)"
      using lo by (simp add: js_slice0_take nat_add_distrib)
    have len: "length (take (nat (currentOutfitIndex t) + 1) (outfitHistory t)) =
        nat (currentOutfitIndex t) + 1"
      using lo hi by simp
    show ?thesis
      using lo len by (simp add: t' s1 handleItemSelect_resolve_def sl)
  qed (use add in \<open>simp_all add: successful_add_def x start\<close>)
qed

lemma add_items_keep_prefix:
  assumes "add_items xs t = Some s'"
    and "0 \<le> i" and "i \<le> currentOutfitIndex t"
    and "currentOutfitIndex t < int (length (outfitHistory t))"
    and "n \<le> length (heap t)"
  shows "currentOutfitIndex s' = currentOutfitIndex t + int (length xs)
     \<and> currentOutfitIndex s' < int (length (outfitHistory s'))
     \<and> take (nat i + 1) (outfitHistory s') = take (nat i + 1) (outfitHistory t)
     \<and> take n (heap s') = take n (heap t)"
  using assms
proof (induction xs arbitrary: t)
  case Nil
  then show ?case by simp
next
  case (Cons x xs)
  from Cons.prems(1) obtain t' where one: "successful_add t x = Some t'"
    and rest: "add_items xs t' = Some s'"
    by (auto split: option.splits)
  have lo: "0 \<le> currentOutfitIndex t"
    using Cons.prems(2,3) by simp
  note step = successful_add_step [OF one lo Cons.prems(4)]
  from step have idx: "currentOutfitIndex t' = currentOutfitIndex t + 1"
    and hi': "currentOutfitIndex t' < int (length (outfitHistory t'))"
    and hist: "take (nat (currentOutfitIndex t) + 1) (outfitHistory t') =
         take (nat (currentOutfitIndex t) + 1) (outfitHistory t)"
    and hp: "take (length (heap t)) (heap t') = heap t"
    by simp_all
  have le': "i \<le> currentOutfitIndex t'"
    using Cons.prems(3) idx by simp
  have n': "n \<le> length (heap t')"
    using hp Cons.prems(5) by (metis length_take min.cobounded1 order_trans)
  note ih = Cons.IH [OF rest Cons.prems(2) le' hi' n']
  have small: "nat i + 1 \<le> nat (currentOutfitIndex t) + 1"
    using Cons.prems(2,3) by simp
  have "take (nat i + 1) (outfitHistory t') =
      take (nat i + 1) (take (nat (currentOutfitIndex t) + 1) (outfitHistory t'))"
    using small by (simp add: min_absorb1)
  also have "\<dots> = take (nat i + 1) (take (nat (currentOutfitIndex t) + 1) (outfitHistory t))"
    by (simp only: hist)
  also have "\<dots> = take (nat i + 1) (outfitHistory t)"
    using small by (simp add: min_absorb1)
  finally have h1: "take (nat i + 1) (outfitHistory t') = take (nat i + 1) (outfitHistory t)" .
  have "take n (heap t') = take n (take (length (heap t)) (heap t'))"
    using Cons.prems(5) by (simp add: min_absorb1)
  then have h2: "take n (heap t') = take n (heap t)"
    by (simp add: hp)
  show ?case
    using ih idx h1 h2 by simp
qed

lemma display_of_layer:
  assumes "js_nth (outfitHistory s) (currentOutfitIndex s) = Some a"
  shows "displayImageUrl s =
     (case obj_get (poseImages (layer_at s a)) (pose_key (currentPoseIndex s)) of
        Some v \<Rightarrow> Some v
      | None \<Rightarrow> first_value (poseImages (layer_at s a)))"
proof -
  from assms have "outfitHistory s \<noteq> []"
    by (auto simp: js_nth_Some)
  with assms show ?thesis
    by (simp add: displayImageUrl_def)
qed

lemma remove_n:
  "int n \<le> currentOutfitIndex t \<Longrightarrow>
   (handleRemoveLastGarment ^^ n) t =
     (if n = 0 then t
      else t\<lparr>currentOutfitIndex := currentOutfitIndex t - int n, currentPoseIndex := 0\<rparr>)"
proof (induction n)
  case 0
  then show ?case by simp
next
  case (Suc n)
  then show ?case
    by (simp add: handleRemoveLastGarment_def)
qed

lemma st_pose1_sweat:
  "add_items [(''sweat-file'', sweat, ''sweat.png'')] st_pose1 \<noteq> None"
  "currentOutfitIndex
     (handleRemoveLastGarment (the (add_items [(''sweat-file'', sweat, ''sweat.png'')] st_pose1))) = 1"
  "displayImageUrl
     (handleRemoveLastGarment (the (add_items [(''sweat-file'', sweat, ''sweat.png'')] st_pose1)))
     = Some ''tee.png''"
  by (simp_all add: base_defs st_pose1_def sweat_def run_defs successful_add_def)

text \<open>
  The display image is not always restored. With the tee worn and its second pose
  shown, the sweat is added and removed again: the active position is 1 as before, but
  the image shown is the tee's first pose, not the second.
\<close>

theorem undo_changes_display_image:
  "add_items [(''sweat-file'', sweat, ''sweat.png'')] st_pose1 \<noteq> None
   \<and> currentOutfitIndex st_pose1 = 1
   \<and> displayImageUrl st_pose1 = Some ''tee-pose1.png''
   \<and> currentOutfitIndex
        (handleRemoveLastGarment
           (the (add_items [(''sweat-file'', sweat, ''sweat.png'')] st_pose1))) = 1
   \<and> displayImageUrl
        (handleRemoveLastGarment
           (the (add_items [(''sweat-file'', sweat, ''sweat.png'')] st_pose1))) = Some ''tee.png''"
  using st_pose1_sweat st_pose1_fields(2,6) by simp

text \<open>
  Claim C4, amended. From a state whose active position is inside the history, \<open>n\<close>
  successful add-item calls followed by \<open>n\<close> remove-last-item calls restore the
  active position exactly. For \<open>n > 0\<close> the display image is then the one the original
  active layer shows at the first pose of the catalog (its image for that pose, else its
  first image), since each removal resets the pose position; it is the display image
  from before the adds when the pose position was 0 then.
\<close>

theorem undo_restores_position_and_first_pose_image:
  assumes alloc: "history_allocated s"
    and lo: "0 \<le> currentOutfitIndex s"
    and hi: "currentOutfitIndex s < int (length (outfitHistory s))"
    and adds: "add_items xs s = Some s'"
  shows "currentOutfitIndex ((handleRemoveLastGarment ^^ length xs) s') = currentOutfitIndex s
     \<and> displayImageUrl ((handleRemoveLastGarment ^^ length xs) s') =
         displayImageUrl (if xs = [] then s else s\<lparr>currentPoseIndex := 0\<rparr>)
     \<and> (currentPoseIndex s = 0 \<longrightarrow>
          displayImageUrl ((handleRemoveLastGarment ^^ length xs) s') = displayImageUrl s)"
proof (cases "xs = []")
  case True
  with adds show ?thesis by simp
next
  case False
  let ?i = "currentOutfitIndex s"
  let ?a = "outfitHistory s ! nat ?i"
  let ?u = "s'\<lparr>currentOutfitIndex := ?i, currentPoseIndex := 0\<rparr>"
  note keep = add_items_keep_prefix [OF adds lo order_refl hi order_refl]
  from keep have idx: "currentOutfitIndex s' = ?i + int (length xs)"
    and hi': "currentOutfitIndex s' < int (length (outfitHistory s'))"
    and hist: "take (nat ?i + 1) (outfitHistory s') = take (nat ?i + 1) (outfitHistory s)"
    and hp: "take (length (heap s)) (heap s') = heap s"
    by simp_all
  have enough: "int (length xs) \<le> currentOutfitIndex s'"
    using idx lo by simp
  have u: "(handleRemoveLastGarment ^^ length xs) s' = ?u"
    using False idx remove_n [OF enough] by simp
  have a_alloc: "?a < length (heap s)"
    using alloc lo hi by (simp add: history_allocated_def list_all_length)
  have "outfitHistory s' ! nat ?i = take (nat ?i + 1) (outfitHistory s') ! nat ?i"
    by simp
  also have "\<dots> = take (nat ?i + 1) (outfitHistory s) ! nat ?i"
    by (simp only: hist)
  also have "\<dots> = ?a"
    by simp
  finally have same_addr: "outfitHistory s' ! nat ?i = ?a" .
  have "heap s' ! ?a = take (length (heap s)) (heap s') ! ?a"
    using a_alloc by simp
  then have same_layer: "heap s' ! ?a = heap s ! ?a"
    by (simp only: hp)
  have in_range': "?i < int (length (outfitHistory s'))"
    using idx hi' by simp
  have nu: "js_nth (outfitHistory ?u) (currentOutfitIndex ?u) = Some ?a"
    using lo in_range' same_addr by (simp add: js_nth_def)
  have ns: "js_nth (outfitHistory (s\<lparr>currentPoseIndex := 0\<rparr>))
      (currentOutfitIndex (s\<lparr>currentPoseIndex := 0\<rparr>)) = Some ?a"
    using lo hi by (simp add: js_nth_def)
  have lay: "layer_at ?u ?a = layer_at (s\<lparr>currentPoseIndex := 0\<rparr>) ?a"
    using same_layer by (simp add: layer_at_def)
  have pk: "currentPoseIndex ?u = currentPoseIndex (s\<lparr>currentPoseIndex := 0\<rparr>)"
    by simp
  have d_u: "displayImageUrl ?u = displayImageUrl (s\<lparr>currentPoseIndex := 0\<rparr>)"
    unfolding display_of_layer [OF nu] display_of_layer [OF ns] lay pk by (rule refl)
  have d_s: "currentPoseIndex s = 0 \<Longrightarrow> s\<lparr>currentPoseIndex := 0\<rparr> = s"
    by simp
  show ?thesis
    using False d_u d_s by (simp add: u split del: if_split) (metis d_s)
qed

lemma st_pose1_two_adds:
  "history_allocated st_pose1"
  "add_items [(''sweat-file'', sweat, ''sweat.png''), (''hat-file'', hat, ''hat.png'')] st_pose1 =
     Some (the (add_items
       [(''sweat-file'', sweat, ''sweat.png''), (''hat-file'', hat, ''hat.png'')] st_pose1))"
  "map_option currentOutfitIndex (add_items
       [(''sweat-file'', sweat, ''sweat.png''), (''hat-file'', hat, ''hat.png'')] st_pose1) = Some 3"
  "displayImageUrl (st_pose1\<lparr>currentPoseIndex := 0\<rparr>) = Some ''tee.png''"
  by (simp_all add: base_defs st_pose1_def sweat_def hat_def run_defs successful_add_def
      history_allocated_def)

theorem undo_restores_position_and_first_pose_image_witness:
  "history_allocated st_pose1
   \<and> currentOutfitIndex st_pose1 = 1 \<and> outfitHistory st_pose1 = [0, 1]
   \<and> currentPoseIndex st_pose1 = 1
   \<and> map_option currentOutfitIndex (add_items
        [(''sweat-file'', sweat, ''sweat.png''), (''hat-file'', hat, ''hat.png'')] st_pose1) = Some 3
   \<and> currentOutfitIndex ((handleRemoveLastGarment ^^ 2) (the (add_items
        [(''sweat-file'', sweat, ''sweat.png''), (''hat-file'', hat, ''hat.png'')] st_pose1))) = 1
   \<and> displayImageUrl ((handleRemoveLastGarment ^^ 2) (the (add_items
        [(''sweat-file'', sweat, ''sweat.png''), (''hat-file'', hat, ''hat.png'')] st_pose1)))
       = Some ''tee.png''"
proof -
  have lo: "0 \<le> currentOutfitIndex st_pose1"
    and hi: "currentOutfitIndex st_pose1 < int (length (outfitHistory st_pose1))"
    by (simp_all add: st_pose1_fields)
  note th = undo_restores_position_and_first_pose_image
    [OF st_pose1_two_adds(1) lo hi st_pose1_two_adds(2)]
  show ?thesis
    using th st_pose1_two_adds(1,3,4) st_pose1_fields(1,2,3) by (simp add: numeral_2_eq_2)
qed

end
